theory Spec2Isabelle
  imports Complex_Main
begin

section \<open>The normal-distribution sampler of \<^verbatim>\<open>problemset1/normal.py\<close>\<close>

text \<open>
  The module defines one class, \<^verbatim>\<open>NormalDistribution\<close>, and a command-line block.
  An instance keeps its three parameters and the drawn sample in its attribute
  dictionary; every attribute assignment goes through \<^verbatim>\<open>__setattr__\<close>, which
  stores the value and, once all three parameters are bound, redraws the sample.

  Conventions of the embedding:
  \<^item> Python floats are idealised as \<^typ>\<open>real\<close> (no rounding, no nan, no infinity);
  \<^item> a parameter holds a Python number, an \<^verbatim>\<open>int\<close> or a \<^verbatim>\<open>float\<close>, as the
    docstring of \<^verbatim>\<open>__init__\<close> types them; the command line passes floats for all
    three;
  \<^item> an attribute that is not bound in \<^verbatim>\<open>__dict__\<close> is \<open>None\<close> at the outer
    option of its field; the Python value \<^verbatim>\<open>None\<close> of the sample is \<open>Some None\<close>;
  \<^item> an exception is the left injection of a sum; a method that mutates returns the
    object and the state of the global numpy generator after the call, also when it
    raises, because the store into \<^verbatim>\<open>__dict__\<close> is not rolled back;
  \<^item> what the module imports from numpy, ScientificPython and the Python runtime is
    collected in a record of library functions, over which every definition is
    parametric;
  \<^item> the model covers assignment to the four attributes the class uses; deleting an
    attribute, assigning an attribute of another name, and running with assertions
    switched off are outside it.
\<close>

subsection \<open>Values, exceptions and the imported library\<close>

datatype number = PInt int | PFloat real

datatype error =
    AssertionError
  | AttributeError
  | IndexError
  | MemoryError
  | TypeError
  | ValueError
  | ZeroDivisionError

text \<open>
  \<^item> \<open>normal\<close> is \<^verbatim>\<open>numpy.random.normal(loc, scale, size)\<close>: from the state of the
    global generator and the three arguments it either raises or returns a
    one-dimensional array, and the next generator state.
  \<^item> \<open>mean_empty\<close> is what \<^verbatim>\<open>Scientific.Statistics.mean\<close> does on an array without
    elements, which the specification leaves open.
  \<^item> \<open>str_float\<close> is the \<^verbatim>\<open>%s\<close> rendering of a float.
  \<^item> \<open>float_of\<close> is the builtin \<^verbatim>\<open>float\<close> on a string; \<open>None\<close> stands for its
    \<^verbatim>\<open>ValueError\<close>.
\<close>

record 'g library =
  normal :: "'g \<Rightarrow> number \<Rightarrow> number \<Rightarrow> number \<Rightarrow> (error + real list) \<times> 'g"
  mean_empty :: "error + real"
  str_float :: "real \<Rightarrow> string"
  float_of :: "string \<Rightarrow> real option"

text \<open>
  Modelled from the spec: \<^verbatim>\<open>Scientific.Statistics.mean\<close> is imported, not part of the
  repository; the specification calls its result the arithmetic mean of the sample.
\<close>

definition Statistics_mean :: "'g library \<Rightarrow> real list \<Rightarrow> error + real" where
  "Statistics_mean L xs =
     (if xs = [] then mean_empty L else Inr (sum_list xs / real (length xs)))"

text \<open>
  Modelled from the spec: \<^verbatim>\<open>numpy.multiply\<close> is imported; on two arrays of the same
  length it is the elementwise product (the specification's elementwise square when
  both arguments are the sample).
\<close>

definition multiply :: "real list \<Rightarrow> real list \<Rightarrow> real list" where
  "multiply xs ys = map (\<lambda>(x, y). x * y) (zip xs ys)"

text \<open>
  Python's \<^verbatim>\<open>==\<close> between the \<^verbatim>\<open>int\<close> that \<^verbatim>\<open>len\<close> returns and a number:
  an int compares by value with a float.
\<close>

fun int_eq_number :: "int \<Rightarrow> number \<Rightarrow> bool" where
  "int_eq_number k (PInt j) = (k = j)"
| "int_eq_number k (PFloat r) = (real_of_int k = r)"

text \<open>
  Indexing a one-dimensional array with an integer: a negative index counts from the
  end, and an index outside \<open>-n \<dots> n-1\<close> raises \<^verbatim>\<open>IndexError\<close>.
\<close>

definition ndarray_getitem :: "real list \<Rightarrow> int \<Rightarrow> error + real" where
  "ndarray_getitem xs i =
     (if 0 \<le> i \<and> i < int (length xs) then Inr (xs ! nat i)
      else if i < 0 \<and> - int (length xs) \<le> i then Inr (xs ! nat (int (length xs) + i))
      else Inl IndexError)"

definition newline :: char where
  "newline = CHR 0x0A"

subsection \<open>The instance\<close>

record obj =
  mean :: "number option"
  standard_deviation :: "number option"
  sample_size :: "number option"
  sample :: "real list option option"

definition empty_obj :: obj where
  "empty_obj = \<lparr>mean = None, standard_deviation = None, sample_size = None, sample = None\<rparr>"

text \<open>An assignment \<^verbatim>\<open>self.<name> = value\<close> to one of the four attributes.\<close>

datatype assignment =
    Set_mean number
  | Set_standard_deviation number
  | Set_sample_size number
  | Set_sample "real list option"

text \<open>\<^verbatim>\<open>self.__dict__[name] = value\<close>\<close>

fun store :: "assignment \<Rightarrow> obj \<Rightarrow> obj" where
  "store (Set_mean v) d = d\<lparr>mean := Some v\<rparr>"
| "store (Set_standard_deviation v) d = d\<lparr>standard_deviation := Some v\<rparr>"
| "store (Set_sample_size v) d = d\<lparr>sample_size := Some v\<rparr>"
| "store (Set_sample v) d = d\<lparr>sample := Some v\<rparr>"

fun is_parameter :: "assignment \<Rightarrow> bool" where
  "is_parameter (Set_sample v) = False"
| "is_parameter a = True"

subsection \<open>Methods and properties of \<^verbatim>\<open>NormalDistribution\<close>\<close>

definition sample_average :: "'g library \<Rightarrow> obj \<Rightarrow> error + real option" where
  "sample_average L d =
     (case sample d of
        None \<Rightarrow> Inl AttributeError
      | Some None \<Rightarrow> Inr None
      | Some (Some xs) \<Rightarrow>
          (case Statistics_mean L xs of Inl e \<Rightarrow> Inl e | Inr a \<Rightarrow> Inr (Some a)))"

definition square_sample_average :: "'g library \<Rightarrow> obj \<Rightarrow> error + real option" where
  "square_sample_average L d =
     (case sample d of
        None \<Rightarrow> Inl AttributeError
      | Some None \<Rightarrow> Inr None
      | Some (Some xs) \<Rightarrow>
          (case Statistics_mean L (multiply xs xs) of Inl e \<Rightarrow> Inl e | Inr a \<Rightarrow> Inr (Some a)))"

text \<open>The \<^verbatim>\<open>%s\<close> conversion of a statistic, which is \<^verbatim>\<open>None\<close> or a float.\<close>

fun percent_s :: "'g library \<Rightarrow> real option \<Rightarrow> string" where
  "percent_s L None = ''None''"
| "percent_s L (Some x) = str_float L x"

text \<open>
  \<^verbatim>\<open>'output <x^2>= %s \n output <x>= %s' % (self.square_sample_average, self.sample_average)\<close>
\<close>

definition output_property :: "'g library \<Rightarrow> obj \<Rightarrow> error + string" where
  "output_property L d =
     (case square_sample_average L d of
        Inl e \<Rightarrow> Inl e
      | Inr sq \<Rightarrow>
          (case sample_average L d of
             Inl e \<Rightarrow> Inl e
           | Inr av \<Rightarrow>
               Inr (''output <x^2>= '' @ percent_s L sq @ '' '' @ [newline]
                    @ '' output <x>= '' @ percent_s L av)))"

text \<open>
  \<^verbatim>\<open>_calculate_sample\<close>: the draw, and the assertion that the array has as many
  elements as \<^verbatim>\<open>self.sample_size\<close> says.
\<close>

definition calculate_sample :: "'g library \<Rightarrow> obj \<Rightarrow> 'g \<Rightarrow> (error + real list) \<times> 'g" where
  "calculate_sample L d g =
     (case mean d of
        None \<Rightarrow> (Inl AttributeError, g)
      | Some m \<Rightarrow>
          (case standard_deviation d of
             None \<Rightarrow> (Inl AttributeError, g)
           | Some s \<Rightarrow>
               (case sample_size d of
                  None \<Rightarrow> (Inl AttributeError, g)
                | Some n \<Rightarrow>
                    (case normal L g m s n of
                       (Inl e, g') \<Rightarrow> (Inl e, g')
                     | (Inr xs, g') \<Rightarrow>
                         (if int_eq_number (int (length xs)) n then (Inr xs, g')
                          else (Inl AssertionError, g'))))))"

text \<open>\<^verbatim>\<open>__len__\<close> returns the attribute; the builtin \<^verbatim>\<open>len\<close> accepts only an
  \<^verbatim>\<open>int\<close> that is not negative.\<close>

definition dunder_len :: "obj \<Rightarrow> error + number" where
  "dunder_len d = (case sample_size d of None \<Rightarrow> Inl AttributeError | Some n \<Rightarrow> Inr n)"

definition len :: "obj \<Rightarrow> error + nat" where
  "len d =
     (case dunder_len d of
        Inl e \<Rightarrow> Inl e
      | Inr (PFloat r) \<Rightarrow> Inl TypeError
      | Inr (PInt k) \<Rightarrow> (if k < 0 then Inl ValueError else Inr (nat k)))"

text \<open>\<^verbatim>\<open>__getitem__\<close>: \<^verbatim>\<open>self.sample[index]\<close>; \<^verbatim>\<open>None\<close> cannot be subscripted.\<close>

definition dunder_getitem :: "obj \<Rightarrow> int \<Rightarrow> error + real" where
  "dunder_getitem d i =
     (case sample d of
        None \<Rightarrow> Inl AttributeError
      | Some None \<Rightarrow> Inl TypeError
      | Some (Some xs) \<Rightarrow> ndarray_getitem xs i)"

text \<open>\<^verbatim>\<open>_should_update\<close>: all three parameters are bound.\<close>

definition should_update :: "obj \<Rightarrow> bool" where
  "should_update d \<longleftrightarrow>
     mean d \<noteq> None \<and> standard_deviation d \<noteq> None \<and> sample_size d \<noteq> None"

text \<open>
  \<^verbatim>\<open>__setattr__\<close>: store, then redraw when \<^verbatim>\<open>_should_update\<close> holds. When the draw
  raises, the stored value stays and the sample is the one from before.
\<close>

definition dunder_setattr ::
  "'g library \<Rightarrow> assignment \<Rightarrow> obj \<Rightarrow> 'g \<Rightarrow> (error + unit) \<times> obj \<times> 'g" where
  "dunder_setattr L a d g =
     (let d' = store a d in
      if should_update d' then
        (case calculate_sample L d' g of
           (Inl e, g') \<Rightarrow> (Inl e, d', g')
         | (Inr xs, g') \<Rightarrow> (Inr (), d'\<lparr>sample := Some (Some xs)\<rparr>, g'))
      else (Inr (), d', g))"

text \<open>A block of assignments, left at the first one that raises.\<close>

fun assign_all ::
  "'g library \<Rightarrow> assignment list \<Rightarrow> obj \<Rightarrow> 'g \<Rightarrow> (error + unit) \<times> obj \<times> 'g" where
  "assign_all L [] d g = (Inr (), d, g)"
| "assign_all L (a # as) d g =
     (case dunder_setattr L a d g of
        (Inl e, d', g') \<Rightarrow> (Inl e, d', g')
      | (Inr u, d', g') \<Rightarrow> assign_all L as d' g')"

text \<open>
  \<^verbatim>\<open>__init__\<close>: four assignments on a fresh instance. The caller gets the instance
  only when none of them raised.
\<close>

definition dunder_init ::
  "'g library \<Rightarrow> number \<Rightarrow> number \<Rightarrow> number \<Rightarrow> 'g \<Rightarrow> (error + obj) \<times> 'g" where
  "dunder_init L m s n g =
     (case assign_all L
             [Set_mean m, Set_standard_deviation s, Set_sample_size n, Set_sample None]
             empty_obj g of
        (Inl e, d, g') \<Rightarrow> (Inl e, g')
      | (Inr u, d, g') \<Rightarrow> (Inr d, g'))"

subsection \<open>Calls on an instance, as a client makes them\<close>

text \<open>
  The operations the class offers to a client: the attribute \<^verbatim>\<open>sample\<close>, the three
  properties, \<^verbatim>\<open>len\<close>, indexing and attribute assignment. A call returns what the
  client gets (a value or an exception) together with the instance and the generator
  after it.
\<close>

datatype call =
    Get_sample
  | Get_sample_average
  | Get_square_sample_average
  | Get_output
  | Call_len
  | Getitem int
  | Setattr assignment

datatype answer =
    Array "real list option"
  | Statistic "real option"
  | Text string
  | Length nat
  | Element real
  | Unit

fun perform :: "'g library \<Rightarrow> call \<Rightarrow> obj \<Rightarrow> 'g \<Rightarrow> (error + answer) \<times> obj \<times> 'g" where
  "perform L Get_sample d g =
     ((case sample d of None \<Rightarrow> Inl AttributeError | Some v \<Rightarrow> Inr (Array v)), d, g)"
| "perform L Get_sample_average d g =
     ((case sample_average L d of Inl e \<Rightarrow> Inl e | Inr v \<Rightarrow> Inr (Statistic v)), d, g)"
| "perform L Get_square_sample_average d g =
     ((case square_sample_average L d of Inl e \<Rightarrow> Inl e | Inr v \<Rightarrow> Inr (Statistic v)), d, g)"
| "perform L Get_output d g =
     ((case output_property L d of Inl e \<Rightarrow> Inl e | Inr t \<Rightarrow> Inr (Text t)), d, g)"
| "perform L Call_len d g =
     ((case len d of Inl e \<Rightarrow> Inl e | Inr k \<Rightarrow> Inr (Length k)), d, g)"
| "perform L (Getitem i) d g =
     ((case dunder_getitem d i of Inl e \<Rightarrow> Inl e | Inr x \<Rightarrow> Inr (Element x)), d, g)"
| "perform L (Setattr a) d g =
     (case dunder_setattr L a d g of
        (Inl e, d', g') \<Rightarrow> (Inl e, d', g')
      | (Inr u, d', g') \<Rightarrow> (Inr Unit, d', g'))"

fun is_read :: "call \<Rightarrow> bool" where
  "is_read (Setattr a) = False"
| "is_read c = True"

text \<open>
  The documented interface: every read, and the assignment of a parameter. (Python
  also lets a client assign \<^verbatim>\<open>sample\<close> itself.)
\<close>

fun is_public :: "call \<Rightarrow> bool" where
  "is_public (Setattr a) = is_parameter a"
| "is_public c = True"

text \<open>
  A client that makes the calls one after the other, catching what they raise, sees
  the list of their results.
\<close>

fun session ::
  "'g library \<Rightarrow> call list \<Rightarrow> obj \<Rightarrow> 'g \<Rightarrow> (error + answer) list \<times> obj \<times> 'g" where
  "session L [] d g = ([], d, g)"
| "session L (c # cs) d g =
     (case perform L c d g of
        (r, d', g') \<Rightarrow>
          (case session L cs d' g' of (rs, d'', g'') \<Rightarrow> (r # rs, d'', g'')))"

subsection \<open>The command line\<close>

text \<open>
  How the process ends: with an exit status, or with an exception nobody caught, which
  the interpreter reports on standard error before it exits with status 1.
  \<^verbatim>\<open>exit()\<close> without an argument is status 0.
\<close>

datatype ending = Exit nat | Uncaught error

fun exit_code :: "ending \<Rightarrow> nat" where
  "exit_code (Exit k) = k"
| "exit_code (Uncaught e) = 1"

record 'g run =
  stdout :: string
  status :: ending
  distribution :: "obj option"
  generator :: 'g

definition print :: "string \<Rightarrow> string" where
  "print t = t @ [newline]"

definition usage :: "string \<Rightarrow> string" where
  "usage argv0 = ''usage: pydev '' @ argv0 @ '' <mean> <standard deviation> <# of samples>''"

definition uncaught :: "error \<Rightarrow> obj option \<Rightarrow> 'g \<Rightarrow> 'g run" where
  "uncaught e c g = \<lparr>stdout = [], status = Uncaught e, distribution = c, generator = g\<rparr>"

text \<open>The block under \<^verbatim>\<open>if __name__ == '__main__'\<close>, on \<^verbatim>\<open>sys.argv\<close>.\<close>

definition main :: "'g library \<Rightarrow> string list \<Rightarrow> 'g \<Rightarrow> 'g run" where
  "main L argv g =
     (if length argv \<noteq> 4 then
        (case argv of
           [] \<Rightarrow> uncaught IndexError None g
         | argv0 # rest \<Rightarrow>
             \<lparr>stdout = print (usage argv0), status = Exit 0, distribution = None,
              generator = g\<rparr>)
      else
        (case float_of L (argv ! 1) of
           None \<Rightarrow> uncaught ValueError None g
         | Some m \<Rightarrow>
             (case float_of L (argv ! 2) of
                None \<Rightarrow> uncaught ValueError None g
              | Some s \<Rightarrow>
                  (case float_of L (argv ! 3) of
                     None \<Rightarrow> uncaught ValueError None g
                   | Some n \<Rightarrow>
                       (case dunder_init L (PFloat m) (PFloat s) (PFloat n) g of
                          (Inl e, g') \<Rightarrow> uncaught e None g'
                        | (Inr d, g') \<Rightarrow>
                            (case output_property L d of
                               Inl e \<Rightarrow> uncaught e (Some d) g'
                             | Inr t \<Rightarrow>
                                 \<lparr>stdout = print t, status = Exit 0,
                                  distribution = Some d, generator = g'\<rparr>))))))"

subsection \<open>The format of the specification\<close>

text \<open>
  The output string as the specification words it: the square average directly
  followed by the line break. This definition follows the specification, not the
  source; it is compared with \<open>output_property\<close> below.
\<close>

definition output_as_specified :: "'g library \<Rightarrow> real option \<Rightarrow> real option \<Rightarrow> string" where
  "output_as_specified L sq av =
     ''output <x^2>= '' @ percent_s L sq @ [newline] @ '' output <x>= '' @ percent_s L av"

subsection \<open>A deterministic library for evaluation\<close>

text \<open>
  A stand-in for the imported functions, used only to evaluate the definitions at
  concrete inputs. The generator state counts the draws; draw number \<open>g\<close> of size
  \<open>k\<close> is \<open>k\<close> times the value \<open>loc + g * scale\<close>. Like numpy it rejects a negative
  size with \<^verbatim>\<open>ValueError\<close>, and a float where a size is expected with
  \<^verbatim>\<open>TypeError\<close>.
\<close>

fun number_value :: "number \<Rightarrow> real" where
  "number_value (PInt k) = real_of_int k"
| "number_value (PFloat r) = r"

fun counting_normal ::
  "nat \<Rightarrow> number \<Rightarrow> number \<Rightarrow> number \<Rightarrow> (error + real list) \<times> nat" where
  "counting_normal g m s (PFloat r) = (Inl TypeError, g)"
| "counting_normal g m s (PInt k) =
     (if k < 0 then (Inl ValueError, g)
      else (Inr (replicate (nat k) (number_value m + real g * number_value s)), Suc g))"

definition table_str :: "real \<Rightarrow> string" where
  "table_str x = (if x = 0 then ''0.0'' else if x = 1 then ''1.0'' else ''2.5'')"

definition table_float :: "string \<Rightarrow> real option" where
  "table_float t =
     (if t = ''0'' then Some 0 else if t = ''1'' then Some 1
      else if t = ''30'' then Some 30 else None)"

definition counting_library :: "nat library" where
  "counting_library =
     \<lparr>normal = counting_normal, mean_empty = Inl ZeroDivisionError,
      str_float = table_str, float_of = table_float\<rparr>"

subsection \<open>The state of a constructed instance\<close>

text \<open>All three parameters are bound and the sample is an array.\<close>

definition has_sample :: "obj \<Rightarrow> bool" where
  "has_sample d \<longleftrightarrow> should_update d \<and> (\<exists>xs. sample d = Some (Some xs))"

section \<open>Properties\<close>

subsection \<open>How the methods unfold\<close>

lemma multiply_self: "multiply xs xs = map (\<lambda>x. x * x) xs"
  by (simp add: multiply_def zip_same_conv_map)

lemma Statistics_mean_nonempty:
  "xs \<noteq> [] \<Longrightarrow> Statistics_mean L xs = Inr (sum_list xs / real (length xs))"
  by (simp add: Statistics_mean_def)


lemma should_update_store:
  "should_update d \<Longrightarrow> should_update (store a d)"
  by (cases a) (simp_all add: should_update_def)

lemma setattr_partial:
  "\<not> should_update (store a d) \<Longrightarrow> dunder_setattr L a d g = (Inr (), store a d, g)"
  by (simp add: dunder_setattr_def Let_def)

lemma setattr_complete:
  "should_update (store a d) \<Longrightarrow>
   dunder_setattr L a d g =
     (case calculate_sample L (store a d) g of
        (Inl e, g') \<Rightarrow> (Inl e, store a d, g')
      | (Inr xs, g') \<Rightarrow> (Inr (), (store a d)\<lparr>sample := Some (Some xs)\<rparr>, g'))"
  by (simp add: dunder_setattr_def Let_def)

text \<open>
  When the draw raises, so does the assignment: the value stays stored and the sample
  is the one from before.
\<close>

lemma setattr_raises:
  assumes "should_update (store a d)"
    and "calculate_sample L (store a d) g = (Inl e, g')"
  shows "dunder_setattr L a d g = (Inl e, store a d, g')"
  using assms by (simp add: setattr_complete)

subsection \<open>Assignment of a parameter\<close>



subsection \<open>The constructor\<close>

text \<open>
  \<^verbatim>\<open>__init__\<close> draws twice: the assignment of the sample size completes the
  parameters, and the assignment of \<^verbatim>\<open>None\<close> to \<^verbatim>\<open>sample\<close> redraws once more.
\<close>

lemma init_steps:
  "dunder_init L m s n g =
     (case calculate_sample L
             \<lparr>mean = Some m, standard_deviation = Some s, sample_size = Some n, sample = None\<rparr> g of
        (Inl e, g1) \<Rightarrow> (Inl e, g1)
      | (Inr xs, g1) \<Rightarrow>
          (case calculate_sample L
                  \<lparr>mean = Some m, standard_deviation = Some s, sample_size = Some n,
                   sample = Some None\<rparr> g1 of
             (Inl e, g2) \<Rightarrow> (Inl e, g2)
           | (Inr ys, g2) \<Rightarrow>
               (Inr \<lparr>mean = Some m, standard_deviation = Some s, sample_size = Some n,
                     sample = Some (Some ys)\<rparr>, g2)))"
  by (simp add: dunder_init_def empty_obj_def setattr_partial setattr_complete
        should_update_def split: prod.splits sum.splits)

lemma dunder_init_Inr:
  "dunder_init L m s n g = (Inr d, g') \<longleftrightarrow>
     (\<exists>xs g1 ys. normal L g m s n = (Inr xs, g1) \<and> int_eq_number (int (length xs)) n
        \<and> normal L g1 m s n = (Inr ys, g') \<and> int_eq_number (int (length ys)) n
        \<and> d = \<lparr>mean = Some m, standard_deviation = Some s, sample_size = Some n,
                sample = Some (Some ys)\<rparr>)"
  unfolding init_steps
  by (auto simp: calculate_sample_def split: prod.splits sum.splits if_splits)

text \<open>
  C5. When the constructor returns an instance for the integer sample size \<open>N\<close>, then
  \<open>N\<close> is not negative, \<^verbatim>\<open>len\<close> of the instance is \<open>N\<close>, and the sample is an array
  of exactly \<open>N\<close> elements.
\<close>

theorem init_length:
  assumes "dunder_init L m s (PInt N) g = (Inr d, g')"
  shows "0 \<le> N \<and> len d = Inr (nat N) \<and> dunder_len d = Inr (PInt N)
         \<and> (\<exists>xs. sample d = Some (Some xs) \<and> int (length xs) = N)"
  using assms by (auto simp: dunder_init_Inr len_def dunder_len_def)

theorem init_length_witness:
  "dunder_init counting_library (PInt 0) (PInt 1) (PInt 2) 0
     = (Inr \<lparr>mean = Some (PInt 0), standard_deviation = Some (PInt 1),
             sample_size = Some (PInt 2), sample = Some (Some [1, 1])\<rparr>, 2)
   \<and> len \<lparr>mean = Some (PInt 0), standard_deviation = Some (PInt 1),
           sample_size = Some (PInt 2), sample = Some (Some [1, 1])\<rparr> = Inr 2"
proof -
  have built: "dunder_init counting_library (PInt 0) (PInt 1) (PInt 2) 0
     = (Inr \<lparr>mean = Some (PInt 0), standard_deviation = Some (PInt 1),
             sample_size = Some (PInt 2), sample = Some (Some [1, 1])\<rparr>, 2)"
    by (simp add: dunder_init_Inr counting_library_def numeral_2_eq_2)
  show ?thesis
    using built init_length [OF built] by simp
qed

subsection \<open>The output string\<close>

text \<open>
  C2, as the source has it. For an instance with a sample, whenever the two statistics
  are defined (as they are on every sample with elements), the output is the text
  \<open>output <x^2>= \<close>, the square average, a blank, a line break, a blank, the text
  \<open>output <x>= \<close> and the average: the source's format string has a blank between
  the first \<^verbatim>\<open>%s\<close> and the line break.
\<close>

theorem output_format:
  assumes "sample d = Some (Some xs)"
  shows "(\<forall>sq av. square_sample_average L d = Inr sq \<and> sample_average L d = Inr av \<longrightarrow>
            output_property L d =
              Inr (''output <x^2>= '' @ percent_s L sq @ '' '' @ [newline]
                   @ '' output <x>= '' @ percent_s L av))
       \<and> (xs \<noteq> [] \<longrightarrow>
            output_property L d =
              Inr (''output <x^2>= ''
                   @ str_float L (sum_list (map (\<lambda>x. x * x) xs) / real (length xs))
                   @ '' '' @ [newline] @ '' output <x>= ''
                   @ str_float L (sum_list xs / real (length xs))))"
proof (rule conjI)
  show "\<forall>sq av. square_sample_average L d = Inr sq \<and> sample_average L d = Inr av \<longrightarrow>
            output_property L d =
              Inr (''output <x^2>= '' @ percent_s L sq @ '' '' @ [newline]
                   @ '' output <x>= '' @ percent_s L av)"
    by (simp add: output_property_def)
next
  show "xs \<noteq> [] \<longrightarrow>
            output_property L d =
              Inr (''output <x^2>= ''
                   @ str_float L (sum_list (map (\<lambda>x. x * x) xs) / real (length xs))
                   @ '' '' @ [newline] @ '' output <x>= ''
                   @ str_float L (sum_list xs / real (length xs)))"
    using assms
    by (simp add: output_property_def square_sample_average_def sample_average_def
          Statistics_mean_nonempty multiply_self)
qed

theorem output_format_witness:
  "output_property counting_library
     \<lparr>mean = Some (PInt 0), standard_deviation = Some (PInt 1),
      sample_size = Some (PInt 2), sample = Some (Some [1, 1])\<rparr>
   = Inr (''output <x^2>= 1.0 '' @ [CHR 0x0A] @ '' output <x>= 1.0'')"
proof -
  let ?d = "\<lparr>mean = Some (PInt 0), standard_deviation = Some (PInt 1),
      sample_size = Some (PInt 2), sample = Some (Some [1, 1])\<rparr>"
  have s: "sample ?d = Some (Some [1, 1])"
    by simp
  have sq: "square_sample_average counting_library ?d = Inr (Some 1)"
    by (simp add: square_sample_average_def Statistics_mean_def multiply_def)
  have av: "sample_average counting_library ?d = Inr (Some 1)"
    by (simp add: sample_average_def Statistics_mean_def)
  from output_format [OF s, of counting_library] sq av
  have "output_property counting_library ?d =
      Inr (''output <x^2>= '' @ percent_s counting_library (Some 1) @ '' '' @ [newline]
           @ '' output <x>= '' @ percent_s counting_library (Some 1))"
    by blast
  then show ?thesis
    by (simp add: counting_library_def table_str_def newline_def)
qed

text \<open>
  C2, as the specification words it (no character between the square average and the
  line break), fails on an instance whose sample is \<open>[1, 1]\<close>.
\<close>

theorem output_as_specified_counterexample:
  "sample \<lparr>mean = Some (PInt 0), standard_deviation = Some (PInt 1),
      sample_size = Some (PInt 2), sample = Some (Some [1, 1])\<rparr> = Some (Some [1, 1])
   \<and> square_sample_average counting_library
     \<lparr>mean = Some (PInt 0), standard_deviation = Some (PInt 1),
      sample_size = Some (PInt 2), sample = Some (Some [1, 1])\<rparr> = Inr (Some 1)
   \<and> sample_average counting_library
     \<lparr>mean = Some (PInt 0), standard_deviation = Some (PInt 1),
      sample_size = Some (PInt 2), sample = Some (Some [1, 1])\<rparr> = Inr (Some 1)
   \<and> output_property counting_library
     \<lparr>mean = Some (PInt 0), standard_deviation = Some (PInt 1),
      sample_size = Some (PInt 2), sample = Some (Some [1, 1])\<rparr>
     \<noteq> Inr (output_as_specified counting_library (Some 1) (Some 1))"
  by (simp add: output_property_def output_as_specified_def square_sample_average_def
        sample_average_def Statistics_mean_def multiply_def counting_library_def table_str_def)

subsection \<open>Indexing\<close>

text \<open>
  C3, as the source has it. On an instance whose sample is an array with as many
  elements as \<^verbatim>\<open>len\<close> returns, an index from \<open>0\<close> up to the length yields that
  element of the sample and an index from the length on raises \<^verbatim>\<open>IndexError\<close>.
  When the sample is \<^verbatim>\<open>None\<close>, indexing raises \<^verbatim>\<open>TypeError\<close>.
\<close>

theorem getitem_in_range:
  assumes "len d = Inr N"
  shows "(sample d = Some (Some xs) \<and> length xs = N \<and> 0 \<le> i \<and> i < int N
            \<longrightarrow> dunder_getitem d i = Inr (xs ! nat i))
       \<and> (sample d = Some (Some xs) \<and> length xs = N \<and> int N \<le> i
            \<longrightarrow> dunder_getitem d i = Inl IndexError)
       \<and> (sample d = Some None \<longrightarrow> dunder_getitem d i = Inl TypeError)"
  by (auto simp: dunder_getitem_def ndarray_getitem_def)

theorem getitem_in_range_witness:
  "len \<lparr>mean = Some (PInt 0), standard_deviation = Some (PInt 1),
        sample_size = Some (PInt 3), sample = Some (Some [1, 2, 6])\<rparr> = Inr 3
   \<and> dunder_getitem \<lparr>mean = Some (PInt 0), standard_deviation = Some (PInt 1),
        sample_size = Some (PInt 3), sample = Some (Some [1, 2, 6])\<rparr> 1 = Inr 2
   \<and> dunder_getitem \<lparr>mean = Some (PInt 0), standard_deviation = Some (PInt 1),
        sample_size = Some (PInt 3), sample = Some (Some [1, 2, 6])\<rparr> 3 = Inl IndexError"
proof -
  let ?d = "\<lparr>mean = Some (PInt 0), standard_deviation = Some (PInt 1),
        sample_size = Some (PInt 3), sample = Some (Some [1, 2, 6])\<rparr>"
  have l: "len ?d = Inr 3"
    by (simp add: len_def dunder_len_def)
  show ?thesis
    using l getitem_in_range [OF l, of "[1, 2, 6]" 1] getitem_in_range [OF l, of "[1, 2, 6]" 3]
    by simp
qed

text \<open>
  C3, as the specification words it, fails where the sample is \<^verbatim>\<open>None\<close>: the error
  is a \<^verbatim>\<open>TypeError\<close>, not an \<^verbatim>\<open>IndexError\<close>.
\<close>

theorem getitem_none_counterexample:
  "sample \<lparr>mean = Some (PInt 0), standard_deviation = Some (PInt 1),
           sample_size = Some (PInt 3), sample = Some None\<rparr> = Some None
   \<and> dunder_getitem
       \<lparr>mean = Some (PInt 0), standard_deviation = Some (PInt 1),
        sample_size = Some (PInt 3), sample = Some None\<rparr> 0 = Inl TypeError
   \<and> dunder_getitem
       \<lparr>mean = Some (PInt 0), standard_deviation = Some (PInt 1),
        sample_size = Some (PInt 3), sample = Some None\<rparr> 0 \<noteq> Inl IndexError"
  by (simp add: dunder_getitem_def)

text \<open>
  C10. On an instance whose sample is an array of \<open>N\<close> elements, the index \<open>-k\<close> with
  \<open>1 \<le> k \<le> N\<close> does not raise: it yields the element at position \<open>N - k\<close>.
\<close>

theorem getitem_negative:
  assumes "sample d = Some (Some xs)" and "1 \<le> k" and "k \<le> int (length xs)"
  shows "dunder_getitem d (- k) = Inr (xs ! (length xs - nat k))"
proof -
  have "nat (int (length xs) + - k) = length xs - nat k"
    using assms(2,3) by linarith
  with assms show ?thesis
    by (simp add: dunder_getitem_def ndarray_getitem_def)
qed

theorem getitem_negative_witness:
  "dunder_getitem
     \<lparr>mean = Some (PInt 0), standard_deviation = Some (PInt 1), sample_size = Some (PInt 3),
      sample = Some (Some [1, 2, 6])\<rparr> (- 1) = Inr 6"
proof -
  have "sample \<lparr>mean = Some (PInt 0), standard_deviation = Some (PInt 1),
      sample_size = Some (PInt 3), sample = Some (Some [1, 2, 6])\<rparr> = Some (Some [1, 2, 6])"
    by simp
  from getitem_negative [OF this, of 1] show ?thesis
    by simp
qed

subsection \<open>The two averages\<close>

text \<open>
  C4. Each of the two properties returns \<^verbatim>\<open>None\<close> exactly when the sample is
  \<^verbatim>\<open>None\<close>. On a sample with elements, \<open>sample_average\<close> is the sum of the elements
  divided by their number, and \<open>square_sample_average\<close> is the sum of their squares divided
  by their number.
\<close>

theorem averages:
  "(sample_average L d = Inr None \<longleftrightarrow> sample d = Some None)
   \<and> (square_sample_average L d = Inr None \<longleftrightarrow> sample d = Some None)
   \<and> (sample d = Some (Some xs) \<and> xs \<noteq> [] \<longrightarrow>
        sample_average L d = Inr (Some (sum_list xs / real (length xs)))
        \<and> square_sample_average L d
            = Inr (Some (sum_list (map (\<lambda>x. x * x) xs) / real (length xs))))"
proof (intro conjI impI)
  show "sample_average L d = Inr None \<longleftrightarrow> sample d = Some None"
    by (simp add: sample_average_def split: option.splits sum.splits)
  show "square_sample_average L d = Inr None \<longleftrightarrow> sample d = Some None"
    by (simp add: square_sample_average_def split: option.splits sum.splits)
next
  assume "sample d = Some (Some xs) \<and> xs \<noteq> []"
  then show "sample_average L d = Inr (Some (sum_list xs / real (length xs)))"
    by (simp add: sample_average_def Statistics_mean_nonempty)
next
  assume "sample d = Some (Some xs) \<and> xs \<noteq> []"
  then show "square_sample_average L d
            = Inr (Some (sum_list (map (\<lambda>x. x * x) xs) / real (length xs)))"
    by (simp add: square_sample_average_def multiply_self Statistics_mean_nonempty)
qed

theorem averages_witness:
  "sample_average counting_library
     \<lparr>mean = Some (PInt 0), standard_deviation = Some (PInt 1), sample_size = Some (PInt 3),
      sample = Some (Some [1, 2, 6])\<rparr> = Inr (Some 3)
   \<and> square_sample_average counting_library
     \<lparr>mean = Some (PInt 0), standard_deviation = Some (PInt 1), sample_size = Some (PInt 3),
      sample = Some (Some [1, 2, 6])\<rparr> = Inr (Some (41 / 3))
   \<and> sample_average counting_library
     \<lparr>mean = Some (PInt 0), standard_deviation = Some (PInt 1), sample_size = Some (PInt 3),
      sample = Some None\<rparr> = Inr None"
  using averages [of counting_library
      "\<lparr>mean = Some (PInt 0), standard_deviation = Some (PInt 1), sample_size = Some (PInt 3),
        sample = Some (Some [1, 2, 6])\<rparr>" "[1, 2, 6]"]
    averages [of counting_library
      "\<lparr>mean = Some (PInt 0), standard_deviation = Some (PInt 1), sample_size = Some (PInt 3),
        sample = Some None\<rparr>" "[]"]
  by simp

subsection \<open>Reading\<close>

lemma perform_read:
  "is_read c \<Longrightarrow> perform L c d g = (fst (perform L c d g), d, g)"
  by (cases c) simp_all

text \<open>
  C8. A client that only reads (the sample, a statistic, the output, the length, an
  element), any number of times, gets from each read what that read returns on the
  instance as it was at the start, and leaves the instance and the generator as they
  were: no read draws.
\<close>

theorem reads_repeat:
  assumes "\<forall>c \<in> set cs. is_read c"
  shows "session L cs d g = (map (\<lambda>c. fst (perform L c d g)) cs, d, g)"
  using assms
proof (induction cs)
  case Nil
  show ?case by simp
next
  case (Cons c cs)
  then have "is_read c" and rest: "session L cs d g = (map (\<lambda>c. fst (perform L c d g)) cs, d, g)"
    by simp_all
  from \<open>is_read c\<close> have "perform L c d g = (fst (perform L c d g), d, g)"
    by (rule perform_read)
  then obtain r where "perform L c d g = (r, d, g)" ..
  with rest show ?case
    by simp
qed

theorem reads_repeat_witness:
  "session counting_library [Get_sample, Get_sample_average, Get_sample, Getitem 0, Get_sample]
     \<lparr>mean = Some (PInt 0), standard_deviation = Some (PInt 1),
      sample_size = Some (PInt 2), sample = Some (Some [1, 1])\<rparr> 2
   = ([Inr (Array (Some [1, 1])), Inr (Statistic (Some 1)), Inr (Array (Some [1, 1])),
       Inr (Element 1), Inr (Array (Some [1, 1]))],
      \<lparr>mean = Some (PInt 0), standard_deviation = Some (PInt 1),
       sample_size = Some (PInt 2), sample = Some (Some [1, 1])\<rparr>, 2)"
proof -
  have "\<forall>c \<in> set [Get_sample, Get_sample_average, Get_sample, Getitem 0, Get_sample]. is_read c"
    by simp
  from reads_repeat [OF this, of counting_library] show ?thesis
    by (simp add: sample_average_def Statistics_mean_def dunder_getitem_def ndarray_getitem_def)
qed

subsection \<open>The sample of a constructed instance\<close>

lemma has_sample_perform:
  assumes "has_sample d" and "is_public c" and "perform L c d g = (r, d', g')"
  shows "has_sample d'"
proof (cases c)
  case (Setattr a)
  with assms(2) have par: "is_parameter a"
    by simp
  from assms(1) have upd: "should_update (store a d)"
    by (simp add: has_sample_def should_update_store)
  from par assms(1) have kept: "has_sample (store a d)"
    by (cases a) (auto simp: has_sample_def should_update_def)
  from assms(3) Setattr upd show ?thesis
    using kept
    by (auto simp: setattr_complete has_sample_def should_update_def
          split: prod.splits sum.splits)
qed (use assms in auto)

lemma has_sample_session:
  "has_sample d \<Longrightarrow> \<forall>c \<in> set cs. is_public c \<Longrightarrow> session L cs d g = (rs, d', g')
     \<Longrightarrow> has_sample d'"
proof (induction cs arbitrary: d g rs)
  case Nil
  then show ?case by simp
next
  case (Cons c cs)
  obtain r d1 g1 where step: "perform L c d g = (r, d1, g1)"
    by (cases "perform L c d g") auto
  obtain rs1 where rest: "session L cs d1 g1 = (rs1, d', g')"
    using Cons.prems(3) step by (auto split: prod.splits)
  from Cons.prems(1,2) step have "has_sample d1"
    by (auto intro: has_sample_perform)
  with Cons.IH [OF _ _ rest] Cons.prems(2) show ?case
    by simp
qed

lemma average_not_None:
  "sample d = Some (Some xs) \<Longrightarrow> sample_average L d \<noteq> Inr None"
  "sample d = Some (Some xs) \<Longrightarrow> square_sample_average L d \<noteq> Inr None"
  by (simp_all add: sample_average_def square_sample_average_def split: sum.splits)

text \<open>
  C9. When the constructor returns an instance, its sample is the array of the second
  draw, made by the assignment of \<^verbatim>\<open>None\<close> to \<^verbatim>\<open>sample\<close>, with as many elements
  as the sample size says. After any calls of the documented interface on it (reads
  and parameter assignments, whether they return or raise) the sample is still an
  array, and neither average is \<^verbatim>\<open>None\<close>.
\<close>

theorem init_sample_present:
  assumes "dunder_init L m s n g = (Inr d, g1)"
  shows "(\<exists>xs g0. sample d = Some (Some xs) \<and> sample_size d = Some n
            \<and> int_eq_number (int (length xs)) n \<and> normal L g0 m s n = (Inr xs, g1))
       \<and> (\<forall>cs rs d' g'. (\<forall>c \<in> set cs. is_public c) \<and> session L cs d g1 = (rs, d', g')
            \<longrightarrow> (\<exists>ys. sample d' = Some (Some ys))
                \<and> sample_average L d' \<noteq> Inr None
                \<and> square_sample_average L d' \<noteq> Inr None)"
proof (rule conjI)
  from assms show "\<exists>xs g0. sample d = Some (Some xs) \<and> sample_size d = Some n
            \<and> int_eq_number (int (length xs)) n \<and> normal L g0 m s n = (Inr xs, g1)"
    by (auto simp: dunder_init_Inr)
next
  from assms have start: "has_sample d"
    by (auto simp: dunder_init_Inr has_sample_def should_update_def)
  show "\<forall>cs rs d' g'. (\<forall>c \<in> set cs. is_public c) \<and> session L cs d g1 = (rs, d', g')
            \<longrightarrow> (\<exists>ys. sample d' = Some (Some ys))
                \<and> sample_average L d' \<noteq> Inr None
                \<and> square_sample_average L d' \<noteq> Inr None"
  proof (intro allI impI)
    fix cs rs d' g'
    assume run: "(\<forall>c \<in> set cs. is_public c) \<and> session L cs d g1 = (rs, d', g')"
    with start have "has_sample d'"
      by (blast intro: has_sample_session)
    then obtain ys where ys: "sample d' = Some (Some ys)"
      by (auto simp: has_sample_def)
    then show "(\<exists>ys. sample d' = Some (Some ys))
                \<and> sample_average L d' \<noteq> Inr None
                \<and> square_sample_average L d' \<noteq> Inr None"
      by (simp add: average_not_None)
  qed
qed

theorem init_sample_present_witness:
  "dunder_init counting_library (PInt 0) (PInt 1) (PInt 2) 0
     = (Inr \<lparr>mean = Some (PInt 0), standard_deviation = Some (PInt 1),
             sample_size = Some (PInt 2), sample = Some (Some [1, 1])\<rparr>, 2)
   \<and> session counting_library [Setattr (Set_sample_size (PInt (- 1))), Get_sample]
       \<lparr>mean = Some (PInt 0), standard_deviation = Some (PInt 1),
        sample_size = Some (PInt 2), sample = Some (Some [1, 1])\<rparr> 2
     = ([Inl ValueError, Inr (Array (Some [1, 1]))],
        \<lparr>mean = Some (PInt 0), standard_deviation = Some (PInt 1),
         sample_size = Some (PInt (- 1)), sample = Some (Some [1, 1])\<rparr>, 2)
   \<and> sample_average counting_library
       \<lparr>mean = Some (PInt 0), standard_deviation = Some (PInt 1),
        sample_size = Some (PInt (- 1)), sample = Some (Some [1, 1])\<rparr> \<noteq> Inr None
   \<and> square_sample_average counting_library
       \<lparr>mean = Some (PInt 0), standard_deviation = Some (PInt 1),
        sample_size = Some (PInt (- 1)), sample = Some (Some [1, 1])\<rparr> \<noteq> Inr None"
proof -
  let ?d = "\<lparr>mean = Some (PInt 0), standard_deviation = Some (PInt 1),
             sample_size = Some (PInt 2), sample = Some (Some [1, 1])\<rparr>"
  let ?d' = "\<lparr>mean = Some (PInt 0), standard_deviation = Some (PInt 1),
              sample_size = Some (PInt (- 1)), sample = Some (Some [1, 1])\<rparr>"
  let ?cs = "[Setattr (Set_sample_size (PInt (- 1))), Get_sample]"
  have built: "dunder_init counting_library (PInt 0) (PInt 1) (PInt 2) 0 = (Inr ?d, 2)"
    by (simp add: dunder_init_Inr counting_library_def numeral_2_eq_2)
  have calls: "session counting_library ?cs ?d 2
      = ([Inl ValueError, Inr (Array (Some [1, 1]))], ?d', 2)"
    by (simp add: setattr_complete should_update_def calculate_sample_def
          counting_library_def)
  have pub: "\<forall>c \<in> set ?cs. is_public c"
    by simp
  from init_sample_present [OF built] pub calls
  have "sample_average counting_library ?d' \<noteq> Inr None
      \<and> square_sample_average counting_library ?d' \<noteq> Inr None"
    by blast
  with built calls show ?thesis
    by simp
qed

subsection \<open>The command line\<close>

text \<open>
  C6. With a number of arguments after the program name other than three, the run
  prints the line \<open>usage: pydev <program> <mean> <standard deviation> <# of samples>\<close> on
  standard output and exits with status 0; no instance is constructed and the generator
  is untouched.
\<close>

theorem main_usage:
  assumes "argv = prog # args" and "length args \<noteq> 3"
  shows "main L argv g =
     \<lparr>stdout = ''usage: pydev '' @ prog @ '' <mean> <standard deviation> <# of samples>''
               @ [newline],
      status = Exit 0, distribution = None, generator = g\<rparr>"
  using assms by (simp add: main_def print_def usage_def)

theorem main_usage_witness:
  "main counting_library [''normal.py'', ''0'', ''1''] 0 =
     \<lparr>stdout = ''usage: pydev normal.py <mean> <standard deviation> <# of samples>''
               @ [CHR 0x0A],
      status = Exit 0, distribution = None, generator = 0\<rparr>"
proof -
  have "length [''0'', ''1''] \<noteq> 3"
    by simp
  from main_usage [OF refl this, of counting_library "''normal.py''" 0] show ?thesis
    by (simp add: newline_def)
qed

text \<open>
  C7. With three arguments of which one is not accepted by \<^verbatim>\<open>float\<close>, the run ends
  in an uncaught \<^verbatim>\<open>ValueError\<close>, so with a status other than 0; nothing is printed on
  standard output, no instance is constructed and the generator is untouched.
\<close>

theorem main_parse_error:
  assumes "length argv = 4"
    and "float_of L (argv ! 1) = None \<or> float_of L (argv ! 2) = None
         \<or> float_of L (argv ! 3) = None"
  shows "main L argv g =
           \<lparr>stdout = [], status = Uncaught ValueError, distribution = None, generator = g\<rparr>
         \<and> exit_code (status (main L argv g)) \<noteq> 0"
proof -
  from assms have "main L argv g = uncaught ValueError None g"
    by (auto simp: main_def split: option.splits)
  then show ?thesis
    by (simp add: uncaught_def)
qed

theorem main_parse_error_witness:
  "main counting_library [''normal.py'', ''0'', ''one'', ''30''] 0 =
     \<lparr>stdout = [], status = Uncaught ValueError, distribution = None, generator = 0\<rparr>
   \<and> exit_code (status (main counting_library [''normal.py'', ''0'', ''one'', ''30''] 0)) = 1"
proof -
  have n: "length [''normal.py'', ''0'', ''one'', ''30''] = 4"
    by simp
  have bad: "float_of counting_library ([''normal.py'', ''0'', ''one'', ''30''] ! 1) = None
    \<or> float_of counting_library ([''normal.py'', ''0'', ''one'', ''30''] ! 2) = None
    \<or> float_of counting_library ([''normal.py'', ''0'', ''one'', ''30''] ! 3) = None"
    by (simp add: counting_library_def table_float_def)
  from main_parse_error [OF n bad, of 0] show ?thesis
    by simp
qed

end
